theory Spec2Isabelle
  imports Main "HOL-Library.Word"
begin

unbundle bit_operations_syntax

section \<open>Python values used by the emulator core\<close>

text \<open>
  The core is written in Python: integers are unbounded (\<open>int\<close>), a \<open>bytes\<close> or
  \<open>bytearray\<close> object is a list of 8-bit values, and an exception is a value of the
  type \<open>py_error\<close>. Only the exceptions the modelled code can raise are listed.
\<close>

type_synonym byte = "8 word"

datatype py_error =
    AttributeError | OverflowError | KeyError | TypeError | ValueError
  | FileNotFoundError | EOFError | UnpicklingError

text \<open>
  A slice index of Python, for a sequence of length \<open>n\<close>: a negative index counts from
  the end, and the result is clipped to \<open>0 .. n\<close>.
\<close>

definition slice_index :: "nat \<Rightarrow> int \<Rightarrow> nat" where
  "slice_index n i =
     (if i < 0 then (if int n + i < 0 then 0 else nat (int n + i))
      else if int n < i then n else nat i)"

text \<open>\<open>xs[i:j]\<close>: empty when the clipped upper bound is not above the lower one.\<close>

definition py_slice :: "'a list \<Rightarrow> int \<Rightarrow> int \<Rightarrow> 'a list" where
  "py_slice xs i j =
     (let lo = slice_index (length xs) i; hi = slice_index (length xs) j
      in take (hi - lo) (drop lo xs))"

text \<open>
  \<open>xs[i:j] = ys\<close> on a \<open>bytearray\<close>: the slice is replaced by \<open>ys\<close>, whatever the
  length of \<open>ys\<close>, so the sequence may grow or shrink; an upper bound below the lower
  one is raised to it (the bytes are inserted at the lower bound).
\<close>

definition py_slice_assign :: "'a list \<Rightarrow> int \<Rightarrow> int \<Rightarrow> 'a list \<Rightarrow> 'a list" where
  "py_slice_assign xs i j ys =
     (let lo = slice_index (length xs) i; hi = max lo (slice_index (length xs) j)
      in take lo xs @ ys @ drop hi xs)"

text \<open>\<open>int.from_bytes(bs, 'big')\<close>; the empty sequence gives 0.\<close>

definition int_from_bytes :: "byte list \<Rightarrow> int" where
  "int_from_bytes bs = foldl (\<lambda>acc b. acc * 256 + uint b) 0 bs"

text \<open>The four bytes of a word, most significant first.\<close>

definition be_bytes4 :: "int \<Rightarrow> byte list" where
  "be_bytes4 v =
     [word_of_int (v div 2 ^ 24), word_of_int (v div 2 ^ 16),
      word_of_int (v div 2 ^ 8), word_of_int v]"

text \<open>\<open>value.to_bytes(4, 'big')\<close>: raises OverflowError outside \<open>0 .. 2^32 - 1\<close>.\<close>

definition to_bytes4 :: "int \<Rightarrow> py_error + byte list" where
  "to_bytes4 v =
     (if v < 0 \<or> 2 ^ 32 \<le> v then Inl OverflowError else Inr (be_bytes4 v))"

section \<open>Memory\<close>

text \<open>
  \<open>ram\<close> is the bytearray created by the constructor. The attribute \<open>rom\<close> does not
  exist until \<open>load_cartridge\<close> has run: \<open>None\<close> stands for the missing attribute,
  whose use raises AttributeError.
\<close>

record Memory =
  ram :: "byte list"
  rom :: "byte list option"

definition Memory_init :: "nat \<Rightarrow> Memory" where
  "Memory_init size_bytes = \<lparr>ram = replicate size_bytes 0, rom = None\<rparr>"

definition load_cartridge :: "Memory \<Rightarrow> byte list \<Rightarrow> Memory" where
  "load_cartridge m rom_data = m\<lparr>rom := Some rom_data\<rparr>"

definition cartridge_base :: int where
  "cartridge_base = 0x10000000"

definition read32 :: "Memory \<Rightarrow> int \<Rightarrow> py_error + int" where
  "read32 m address =
     (if address < int (length (ram m))
      then Inr (int_from_bytes (py_slice (ram m) address (address + 4)))
      else (let off = address - cartridge_base in
            case rom m of
              None \<Rightarrow> Inl AttributeError
            | Some r \<Rightarrow> Inr (int_from_bytes (py_slice r off (off + 4)))))"

definition write32 :: "Memory \<Rightarrow> int \<Rightarrow> int \<Rightarrow> py_error + Memory" where
  "write32 m address v =
     (if address < int (length (ram m))
      then (case to_bytes4 v of
              Inl e \<Rightarrow> Inl e
            | Inr bs \<Rightarrow> Inr (m\<lparr>ram := py_slice_assign (ram m) address (address + 4) bs\<rparr>))
      else Inr m)"

definition Memory_reset :: "Memory \<Rightarrow> Memory" where
  "Memory_reset m = m\<lparr>ram := replicate (length (ram m)) 0\<rparr>"

section \<open>The processor\<close>

text \<open>
  The attribute \<open>mem\<close> of the processor and of the coprocessors is a reference to the one
  Memory object of the machine, so the memory is passed to the functions that use it.
\<close>

record VR4300CPU =
  regs :: "int list"
  pc :: int
  cp0 :: "string \<rightharpoonup> int"

definition VR4300CPU_init :: VR4300CPU where
  "VR4300CPU_init = \<lparr>regs = replicate 32 0, pc = 0, cp0 = Map.empty\<rparr>"

definition VR4300CPU_reset :: "VR4300CPU \<Rightarrow> VR4300CPU" where
  "VR4300CPU_reset c = c\<lparr>regs := replicate 32 0, pc := 0xA4000040\<rparr>"

text \<open>
  \<open>_execute\<close>: the branches for opcode 0 and for the immediate family only compute
  local values; the jump family assigns the counter.
\<close>

definition execute :: "int \<Rightarrow> VR4300CPU \<Rightarrow> VR4300CPU" where
  "execute instr c =
     (let opcode = drop_bit 26 instr AND 0x3F in
      if opcode = 0 then c
      else if opcode = 2 \<or> opcode = 3 then
        (let target = instr AND 0x03FFFFFF in
         c\<lparr>pc := (pc c AND 0xF0000000) OR push_bit 2 target\<rparr>)
      else c)"

text \<open>The fetch may raise; then nothing has been assigned yet.\<close>

definition execute_next_instruction :: "Memory \<Rightarrow> VR4300CPU \<Rightarrow> py_error + VR4300CPU" where
  "execute_next_instruction mem c =
     (case read32 mem (pc c) of
        Inl e \<Rightarrow> Inl e
      | Inr instr \<Rightarrow> Inr (execute instr (c\<lparr>pc := pc c + 4\<rparr>)))"

section \<open>Coprocessors, audio and controllers\<close>

record RSP =
  rsp_regs :: "int list"

record RDP =
  framebuffer :: "byte list"

record AudioSystem =
  audio_buffer :: "int list"

record Controller =
  buttons :: int
  joystick_x :: int
  joystick_y :: int
  connected :: bool

definition RSP_reset :: "RSP \<Rightarrow> RSP" where
  "RSP_reset r = r\<lparr>rsp_regs := replicate 32 0\<rparr>"

definition RDP_reset :: "RDP \<Rightarrow> RDP" where
  "RDP_reset d = d\<lparr>framebuffer := replicate (length (framebuffer d)) 0\<rparr>"

definition AudioSystem_reset :: "AudioSystem \<Rightarrow> AudioSystem" where
  "AudioSystem_reset a = a\<lparr>audio_buffer := []\<rparr>"

definition Controller_init :: Controller where
  "Controller_init = \<lparr>buttons = 0, joystick_x = 0, joystick_y = 0, connected = True\<rparr>"

section \<open>Component states as stored in a snapshot\<close>

text \<open>
  A snapshot is whatever \<open>pickle.load\<close> reads back. \<open>save_state\<close> writes a dictionary of
  dictionaries, but a file from elsewhere may hold anything, so an object that should be a
  dictionary is either one (\<open>Dict\<close>) or not (\<open>NotDict\<close>: a number, a list, \<open>None\<close>),
  and a key of a dictionary is either there or not. A field is \<open>None\<close> when the key is not
  in the dictionary: \<open>d["k"]\<close> then raises KeyError and \<open>d.get("k", default)\<close> gives
  the default. On an object that is not a dictionary, \<open>x["k"]\<close> raises TypeError and
  \<open>x.get\<close> raises AttributeError. The values under the keys \<open>regs\<close>, \<open>pc\<close>, \<open>cp0\<close>,
  \<open>framebuffer\<close> and \<open>audio_buffer\<close> have the types that \<open>get_state\<close> writes: the fields
  of the machine are typed, so a value of another type is not represented.
\<close>

datatype 'a stored = NotDict | Dict 'a

record cpu_state =
  st_regs :: "int list option"
  st_pc :: "int option"
  st_cp0 :: "(string \<rightharpoonup> int) option"

record rsp_state =
  st_rsp_regs :: "int list option"

record rdp_state =
  st_framebuffer :: "byte list option"

record audio_state =
  st_audio_buffer :: "int list option"

record controller_state =
  st_buttons :: int
  st_x :: int
  st_y :: int

text \<open>
  The value under \<open>"memory"\<close>, assigned to the whole bytearray: a bytes object, a list
  of integers, or an object a bytearray cannot be made from.
\<close>

datatype ram_image = Bytes "byte list" | IntList "int list" | NotBytesLike

record snapshot =
  snap_cpu :: "cpu_state stored option"
  snap_rsp :: "rsp_state stored option"
  snap_rdp :: "rdp_state stored option"
  snap_audio :: "audio_state stored option"
  snap_memory :: "ram_image option"
  snap_controllers :: "controller_state list option"

text \<open>
  The bytes of \<open>bytearray(xs)\<close> for a list of integers: an element outside \<open>0 .. 255\<close>
  raises ValueError.
\<close>

fun bytes_of_ints :: "int list \<Rightarrow> py_error + byte list" where
  "bytes_of_ints [] = Inr []"
| "bytes_of_ints (x # xs) =
     (if x < 0 \<or> 256 \<le> x then Inl ValueError
      else case bytes_of_ints xs of
             Inl err \<Rightarrow> Inl err
           | Inr bs \<Rightarrow> Inr (word_of_int x # bs))"

text \<open>The bytes that \<open>ram[:] = value\<close> assigns, or the exception it raises.\<close>

fun ram_bytes :: "ram_image \<Rightarrow> py_error + byte list" where
  "ram_bytes (Bytes bs) = Inr bs"
| "ram_bytes (IntList xs) = bytes_of_ints xs"
| "ram_bytes NotBytesLike = Inl TypeError"

definition VR4300CPU_get_state :: "VR4300CPU \<Rightarrow> cpu_state" where
  "VR4300CPU_get_state c = \<lparr>st_regs = Some (regs c), st_pc = Some (pc c), st_cp0 = Some (cp0 c)\<rparr>"

text \<open>
  \<open>set_state\<close> of the processor assigns \<open>regs\<close>, then \<open>pc\<close>, then \<open>cp0\<close>: a missing
  \<open>"pc"\<close> raises after \<open>regs\<close> has been assigned. The result is the exception, if any,
  and the object as the call leaves it.
\<close>

definition VR4300CPU_set_state :: "VR4300CPU \<Rightarrow> cpu_state \<Rightarrow> py_error option \<times> VR4300CPU" where
  "VR4300CPU_set_state c st =
     (case st_regs st of
        None \<Rightarrow> (Some KeyError, c)
      | Some rs \<Rightarrow>
          (let c1 = c\<lparr>regs := rs\<rparr> in
           case st_pc st of
             None \<Rightarrow> (Some KeyError, c1)
           | Some p \<Rightarrow>
               (None, c1\<lparr>pc := p,
                         cp0 := (case st_cp0 st of None \<Rightarrow> Map.empty | Some d \<Rightarrow> d)\<rparr>)))"

definition RSP_get_state :: "RSP \<Rightarrow> rsp_state" where
  "RSP_get_state r = \<lparr>st_rsp_regs = Some (rsp_regs r)\<rparr>"

definition RSP_set_state :: "RSP \<Rightarrow> rsp_state \<Rightarrow> py_error option \<times> RSP" where
  "RSP_set_state r st =
     (case st_rsp_regs st of
        None \<Rightarrow> (Some KeyError, r)
      | Some rs \<Rightarrow> (None, r\<lparr>rsp_regs := rs\<rparr>))"

definition RDP_get_state :: "RDP \<Rightarrow> rdp_state" where
  "RDP_get_state d = \<lparr>st_framebuffer = Some (framebuffer d)\<rparr>"

text \<open>\<open>if fb:\<close> is false for a missing key and for an empty byte string.\<close>

definition RDP_set_state :: "RDP \<Rightarrow> rdp_state \<Rightarrow> RDP" where
  "RDP_set_state d st =
     (case st_framebuffer st of
        None \<Rightarrow> d
      | Some fb \<Rightarrow> (if fb = [] then d else d\<lparr>framebuffer := fb\<rparr>))"

definition AudioSystem_get_state :: "AudioSystem \<Rightarrow> audio_state" where
  "AudioSystem_get_state a = \<lparr>st_audio_buffer = Some (audio_buffer a)\<rparr>"

definition AudioSystem_set_state :: "AudioSystem \<Rightarrow> audio_state \<Rightarrow> AudioSystem" where
  "AudioSystem_set_state a st =
     a\<lparr>audio_buffer := (case st_audio_buffer st of None \<Rightarrow> [] | Some b \<Rightarrow> b)\<rparr>"

definition Controller_get_state :: "Controller \<Rightarrow> controller_state" where
  "Controller_get_state c = \<lparr>st_buttons = buttons c, st_x = joystick_x c, st_y = joystick_y c\<rparr>"

definition InputManager_get_state :: "Controller list \<Rightarrow> controller_state list" where
  "InputManager_get_state cs = map Controller_get_state cs"

text \<open>\<open>InputManager.set_state\<close> restores nothing.\<close>

definition InputManager_set_state :: "Controller list \<Rightarrow> controller_state list \<Rightarrow> Controller list" where
  "InputManager_set_state cs state_list = cs"

section \<open>The machine\<close>

record N64Emulator =
  memory :: Memory
  cpu :: VR4300CPU
  rsp :: RSP
  rdp :: RDP
  audio :: AudioSystem
  input :: "Controller list"
  running :: bool
  paused :: bool

definition N64Emulator_init :: N64Emulator where
  "N64Emulator_init =
     \<lparr>memory = Memory_init (8 * 1024 * 1024),
      cpu = VR4300CPU_init,
      rsp = \<lparr>rsp_regs = replicate 32 0\<rparr>,
      rdp = \<lparr>framebuffer = replicate (640 * 480 * 4) 0\<rparr>,
      audio = \<lparr>audio_buffer = []\<rparr>,
      input = replicate 4 Controller_init,
      running = False,
      paused = False\<rparr>"

text \<open>\<open>reset\<close> of the machine resets the four units; it does not call \<open>Memory.reset\<close>.\<close>

definition N64Emulator_reset :: "N64Emulator \<Rightarrow> N64Emulator" where
  "N64Emulator_reset e =
     e\<lparr>cpu := VR4300CPU_reset (cpu e),
       rsp := RSP_reset (rsp e),
       rdp := RDP_reset (rdp e),
       audio := AudioSystem_reset (audio e)\<rparr>"

text \<open>
  One pass of the body of the loop in \<open>start\<close>: one instruction, then the four calls
  whose bodies are \<open>pass\<close>.
\<close>

definition macro_step :: "N64Emulator \<Rightarrow> py_error + N64Emulator" where
  "macro_step e =
     (case execute_next_instruction (memory e) (cpu e) of
        Inl err \<Rightarrow> Inl err
      | Inr c \<Rightarrow> Inr (e\<lparr>cpu := c\<rparr>))"

text \<open>The machine after each of the next \<open>n\<close> steps; an exception ends the run.\<close>

fun trace :: "nat \<Rightarrow> N64Emulator \<Rightarrow> (py_error + N64Emulator) list" where
  "trace 0 e = []"
| "trace (Suc n) e =
     (case macro_step e of
        Inl err \<Rightarrow> [Inl err]
      | Inr e' \<Rightarrow> Inr e' # trace n e')"

definition apply_cheat :: "N64Emulator \<Rightarrow> int \<Rightarrow> int \<Rightarrow> py_error + N64Emulator" where
  "apply_cheat e address v =
     (case write32 (memory e) address v of
        Inl err \<Rightarrow> Inl err
      | Inr m \<Rightarrow> Inr (e\<lparr>memory := m\<rparr>))"

section \<open>Saving and loading the state\<close>

text \<open>
  The files, by name. Opening a file that does not exist raises FileNotFoundError. A file
  that ends before the pickle does makes \<open>pickle.load\<close> raise EOFError, another file that
  is no pickle makes it raise UnpicklingError, and from a pickle it gives back the object
  that \<open>pickle.dump\<close> wrote.
\<close>

datatype file_content = Truncated | Garbled | Pickled "snapshot stored"

type_synonym files = "string \<rightharpoonup> file_content"

definition get_snapshot :: "N64Emulator \<Rightarrow> snapshot" where
  "get_snapshot e =
     \<lparr>snap_cpu = Some (Dict (VR4300CPU_get_state (cpu e))),
      snap_rsp = Some (Dict (RSP_get_state (rsp e))),
      snap_rdp = Some (Dict (RDP_get_state (rdp e))),
      snap_audio = Some (Dict (AudioSystem_get_state (audio e))),
      snap_memory = Some (Bytes (ram (memory e))),
      snap_controllers = Some (InputManager_get_state (input e))\<rparr>"

definition save_state :: "string \<Rightarrow> N64Emulator \<Rightarrow> files \<Rightarrow> files" where
  "save_state slot_name e fs = fs(slot_name @ ''.state'' \<mapsto> Pickled (Dict (get_snapshot e)))"

text \<open>
  The statements of \<open>load_state\<close> after the file is read, one function each. An exception
  stops the load where it is raised: the assignments made before it stay.
\<close>

definition and_then ::
  "py_error option \<times> N64Emulator \<Rightarrow> (N64Emulator \<Rightarrow> py_error option \<times> N64Emulator)
     \<Rightarrow> py_error option \<times> N64Emulator" where
  "and_then r f = (case fst r of None \<Rightarrow> f (snd r) | Some err \<Rightarrow> r)"

definition load_cpu :: "snapshot \<Rightarrow> N64Emulator \<Rightarrow> py_error option \<times> N64Emulator" where
  "load_cpu st e =
     (case snap_cpu st of
        None \<Rightarrow> (Some KeyError, e)
      | Some NotDict \<Rightarrow> (Some TypeError, e)
      | Some (Dict s) \<Rightarrow>
          (fst (VR4300CPU_set_state (cpu e) s), e\<lparr>cpu := snd (VR4300CPU_set_state (cpu e) s)\<rparr>))"

definition load_rsp :: "snapshot \<Rightarrow> N64Emulator \<Rightarrow> py_error option \<times> N64Emulator" where
  "load_rsp st e =
     (case snap_rsp st of
        None \<Rightarrow> (Some KeyError, e)
      | Some NotDict \<Rightarrow> (Some TypeError, e)
      | Some (Dict s) \<Rightarrow>
          (fst (RSP_set_state (rsp e) s), e\<lparr>rsp := snd (RSP_set_state (rsp e) s)\<rparr>))"

text \<open>The first thing \<open>set_state\<close> of the two units below does is \<open>state.get\<close>.\<close>

definition load_rdp :: "snapshot \<Rightarrow> N64Emulator \<Rightarrow> py_error option \<times> N64Emulator" where
  "load_rdp st e =
     (case snap_rdp st of
        None \<Rightarrow> (Some KeyError, e)
      | Some NotDict \<Rightarrow> (Some AttributeError, e)
      | Some (Dict s) \<Rightarrow> (None, e\<lparr>rdp := RDP_set_state (rdp e) s\<rparr>))"

definition load_audio :: "snapshot \<Rightarrow> N64Emulator \<Rightarrow> py_error option \<times> N64Emulator" where
  "load_audio st e =
     (case snap_audio st of
        None \<Rightarrow> (Some KeyError, e)
      | Some NotDict \<Rightarrow> (Some AttributeError, e)
      | Some (Dict s) \<Rightarrow> (None, e\<lparr>audio := AudioSystem_set_state (audio e) s\<rparr>))"

text \<open>
  \<open>self.memory.ram[:] = state["memory"]\<close>: the bytearray takes the length of the bytes;
  when the value cannot be turned into bytes the bytearray is as it was.
\<close>

definition load_memory :: "snapshot \<Rightarrow> N64Emulator \<Rightarrow> py_error option \<times> N64Emulator" where
  "load_memory st e =
     (case snap_memory st of
        None \<Rightarrow> (Some KeyError, e)
      | Some img \<Rightarrow>
          (case ram_bytes img of
             Inl err \<Rightarrow> (Some err, e)
           | Inr bs \<Rightarrow> (None, e\<lparr>memory := (memory e)\<lparr>ram := bs\<rparr>\<rparr>)))"

definition load_controllers :: "snapshot \<Rightarrow> N64Emulator \<Rightarrow> py_error option \<times> N64Emulator" where
  "load_controllers st e =
     (case snap_controllers st of
        None \<Rightarrow> (Some KeyError, e)
      | Some cs \<Rightarrow> (None, e\<lparr>input := InputManager_set_state (input e) cs\<rparr>))"

text \<open>The six statements in the order of the source.\<close>

definition load_stages :: "snapshot \<Rightarrow> N64Emulator \<Rightarrow> py_error option \<times> N64Emulator" where
  "load_stages st e =
     and_then (and_then (and_then (and_then (and_then
       (load_cpu st e) (load_rsp st)) (load_rdp st)) (load_audio st))
       (load_memory st)) (load_controllers st)"

definition load_state :: "string \<Rightarrow> files \<Rightarrow> N64Emulator \<Rightarrow> py_error option \<times> N64Emulator" where
  "load_state slot_name fs e =
     (case fs (slot_name @ ''.state'') of
        None \<Rightarrow> (Some FileNotFoundError, e)
      | Some Truncated \<Rightarrow> (Some EOFError, e)
      | Some Garbled \<Rightarrow> (Some UnpicklingError, e)
      | Some (Pickled NotDict) \<Rightarrow> (Some TypeError, e)
      | Some (Pickled (Dict st)) \<Rightarrow> load_stages st e)"

section \<open>Concrete machines and snapshots\<close>

text \<open>
  A cartridge of 256 MB whose last word is the instruction \<open>J 1\<close> (opcode 2, target 1),
  in the memory of the machine, and a processor about to fetch that word: the word after
  it lies in the next 256 MB segment.
\<close>

definition big_rom :: "byte list" where
  "big_rom = replicate 0x0FFFFFFC 0 @ [0x08, 0, 0, 1]"

definition boundary_memory :: Memory where
  "boundary_memory = load_cartridge (Memory_init (8 * 1024 * 1024)) big_rom"

definition boundary_cpu :: VR4300CPU where
  "boundary_cpu = VR4300CPU_init\<lparr>pc := 0x1FFFFFFC\<rparr>"

text \<open>The memory of the machine with a cartridge of four bytes.\<close>

definition small_cartridge :: Memory where
  "small_cartridge = load_cartridge (Memory_init (8 * 1024 * 1024)) [1, 2, 3, 4]"

text \<open>The machine as constructed, after the word \<open>0xDEADBEEF\<close> is written at address 0.\<close>

definition cheated :: N64Emulator where
  "cheated = N64Emulator_init
     \<lparr>memory := \<lparr>ram = [0xDE, 0xAD, 0xBE, 0xEF] @ replicate 8388604 0, rom = None\<rparr>\<rparr>"





section \<open>What a load leaves as it was\<close>


section \<open>Bytes and slices\<close>

lemma uint_byte_of_int: "uint (word_of_int k :: byte) = k mod 256"
  by (simp add: uint_word_of_int)

lemma int_from_bytes4:
  "int_from_bytes [a, b, c, d] = ((uint a * 256 + uint b) * 256 + uint c) * 256 + uint d"
  by (simp add: int_from_bytes_def)

lemma be_digits:
  fixes v :: int
  assumes "0 \<le> v" and "v < 2 ^ 32"
  shows "((v div 2 ^ 24 mod 256 * 256 + v div 2 ^ 16 mod 256) * 256
           + v div 2 ^ 8 mod 256) * 256 + v mod 256 = v"
proof -
  have "0 \<le> v div 2 ^ 24"
    using assms by (simp add: pos_imp_zdiv_nonneg_iff)
  moreover have "v div 2 ^ 24 < 256"
    using assms by simp
  ultimately have a: "v div 2 ^ 24 mod 256 = v div 2 ^ 24"
    by simp
  have b: "v div 2 ^ 16 mod 256 = v div 2 ^ 16 - 256 * (v div 2 ^ 24)"
    using minus_mult_div_eq_mod [of "v div 2 ^ 16" 256] by (simp add: zdiv_zmult2_eq [symmetric])
  have c: "v div 2 ^ 8 mod 256 = v div 2 ^ 8 - 256 * (v div 2 ^ 16)"
    using minus_mult_div_eq_mod [of "v div 2 ^ 8" 256] by (simp add: zdiv_zmult2_eq [symmetric])
  have d: "v mod 256 = v - 256 * (v div 2 ^ 8)"
    using minus_mult_div_eq_mod [of v 256] by simp
  show ?thesis
    unfolding a b c d by simp
qed

lemma length_be_bytes4: "length (be_bytes4 v) = 4"
  by (simp add: be_bytes4_def)

lemma to_bytes4_roundtrip:
  assumes "0 \<le> v" and "v < 2 ^ 32"
  shows "to_bytes4 v = Inr (be_bytes4 v)" and "int_from_bytes (be_bytes4 v) = v"
proof -
  show "to_bytes4 v = Inr (be_bytes4 v)"
    using assms unfolding to_bytes4_def by simp
  show "int_from_bytes (be_bytes4 v) = v"
    unfolding be_bytes4_def int_from_bytes4 uint_byte_of_int
    by (rule be_digits [OF assms])
qed

lemma slice_index_nonneg: "0 \<le> i \<Longrightarrow> slice_index n i = min n (nat i)"
  by (auto simp: slice_index_def)

lemma py_slice_nonneg:
  "0 \<le> i \<Longrightarrow> py_slice xs i (i + 4) = take 4 (drop (nat i) xs)"
  by (auto simp: py_slice_def slice_index_nonneg Let_def min_def nat_add_distrib)

lemma py_slice_assign_inside:
  "0 \<le> i \<Longrightarrow> i < int (length xs) \<Longrightarrow>
     py_slice_assign xs i (i + 4) ys = take (nat i) xs @ ys @ drop (nat i + 4) xs"
  by (auto simp: py_slice_assign_def slice_index_nonneg Let_def min_def max_def nat_add_distrib)

lemma slice_of_assign:
  assumes "0 \<le> i" and "i < int (length xs)" and "length ys = 4"
  shows "py_slice (py_slice_assign xs i (i + 4) ys) i (i + 4) = ys"
  using assms by (simp add: py_slice_assign_inside py_slice_nonneg)

lemma length_assign:
  assumes "0 \<le> i" and "i < int (length xs)" and "length ys = 4"
  shows "length (py_slice_assign xs i (i + 4) ys) = max (length xs) (nat i + 4)"
  using assms by (auto simp: py_slice_assign_inside)

lemma take4_drop:
  assumes "k + 4 \<le> length xs"
  shows "take 4 (drop k xs) = [xs ! k, xs ! (k + 1), xs ! (k + 2), xs ! (k + 3)]"
proof -
  have "drop k xs = xs ! k # drop (k + 1) xs"
    using assms by (simp add: Cons_nth_drop_Suc)
  also have "drop (k + 1) xs = xs ! (k + 1) # drop (k + 2) xs"
    using assms by (simp add: Cons_nth_drop_Suc)
  also have "drop (k + 2) xs = xs ! (k + 2) # drop (k + 3) xs"
    using assms Cons_nth_drop_Suc [of "k + 2" xs] by (simp add: numeral_3_eq_3)
  also have "drop (k + 3) xs = xs ! (k + 3) # drop (k + 4) xs"
    using assms Cons_nth_drop_Suc [of "k + 3" xs] by (simp add: numeral_eq_Suc)
  finally show ?thesis
    by simp
qed

section \<open>Writing and reading a word of RAM\<close>

text \<open>
  A write at a non-negative address below the length of the RAM stores the four bytes of
  the word there, most significant first, and a read at the same address gives the word
  back. When fewer than four bytes are left, the bytearray grows to hold them.
\<close>

lemma write32_inside:
  assumes "0 \<le> a" and "a < int (length (ram m))" and "0 \<le> v" and "v < 2 ^ 32"
  shows "write32 m a v =
           Inr (m\<lparr>ram := take (nat a) (ram m) @ be_bytes4 v @ drop (nat a + 4) (ram m)\<rparr>)"
  using assms to_bytes4_roundtrip(1) [OF assms(3,4)]
  by (simp add: write32_def py_slice_assign_inside)

lemma write32_then_read32:
  assumes "0 \<le> a" and "a < int (length (ram m))" and "0 \<le> v" and "v < 2 ^ 32"
  shows "\<exists>m'. write32 m a v = Inr m' \<and> read32 m' a = Inr v \<and> rom m' = rom m
           \<and> length (ram m') = max (length (ram m)) (nat a + 4)"
proof -
  let ?bs = "be_bytes4 v"
  let ?m = "m\<lparr>ram := py_slice_assign (ram m) a (a + 4) ?bs\<rparr>"
  have w: "write32 m a v = Inr ?m"
    using assms(2) to_bytes4_roundtrip(1) [OF assms(3,4)] by (simp add: write32_def)
  have len: "length (ram ?m) = max (length (ram m)) (nat a + 4)"
    using length_assign [OF assms(1,2) length_be_bytes4] by simp
  then have "a < int (length (ram ?m))"
    using assms(2) by simp
  then have "read32 ?m a = Inr v"
    using slice_of_assign [OF assms(1,2) length_be_bytes4] to_bytes4_roundtrip(2) [OF assms(3,4)]
    by (simp add: read32_def)
  with w len show ?thesis
    by simp
qed

text \<open>
  C2. For every address \<open>a\<close> that is a multiple of 4 and below the size of the RAM, and
  every 32-bit word \<open>v\<close>, \<open>write32(a, v)\<close> followed by \<open>read32(a)\<close> returns \<open>v\<close>.
  An address is a non-negative integer and a 32-bit word lies in \<open>0 .. 2^32 - 1\<close>; the
  size of the RAM is the length of the bytearray when the write is made.
\<close>

theorem write32_read32_roundtrip:
  assumes "0 \<le> a" and "a mod 4 = 0" and "a < int (length (ram m))"
    and "0 \<le> v" and "v < 2 ^ 32"
  shows "\<exists>m'. write32 m a v = Inr m' \<and> read32 m' a = Inr v"
  using write32_then_read32 [OF assms(1,3,4,5)] by blast

theorem write32_read32_roundtrip_witness:
  "(0::int) \<le> 0x100 \<and> (0x100::int) mod 4 = 0
     \<and> 0x100 < int (length (ram (Memory_init (8 * 1024 * 1024))))
     \<and> (0::int) \<le> 0xDEADBEEF \<and> (0xDEADBEEF::int) < 2 ^ 32
     \<and> (\<exists>m'. write32 (Memory_init (8 * 1024 * 1024)) 0x100 0xDEADBEEF = Inr m'
            \<and> read32 m' 0x100 = Inr 0xDEADBEEF)"
  using write32_read32_roundtrip [of "0x100" "Memory_init (8 * 1024 * 1024)" "0xDEADBEEF"]
  by (simp add: Memory_init_def)

section \<open>Reading the cartridge\<close>

text \<open>
  C8. For an address \<open>a\<close> that decodes to the ROM (it is not below the size of the RAM)
  with offset \<open>off = a - cartridge_base\<close>, \<open>0 \<le> off\<close> and \<open>off + 4\<close> within the loaded
  content, \<open>read32(a)\<close> returns the big-endian word made of the four bytes of the ROM
  that start at \<open>off\<close>.
\<close>

theorem rom_read32:
  assumes "int (length (ram m)) \<le> a" and "off = a - cartridge_base"
    and "0 \<le> off" and "off + 4 \<le> int (length rom_data)"
  shows "read32 (load_cartridge m rom_data) a =
           Inr (int_from_bytes [rom_data ! nat off, rom_data ! (nat off + 1),
                                rom_data ! (nat off + 2), rom_data ! (nat off + 3)])
         \<and> int_from_bytes [rom_data ! nat off, rom_data ! (nat off + 1),
                           rom_data ! (nat off + 2), rom_data ! (nat off + 3)] =
             uint (rom_data ! nat off) * 2 ^ 24 + uint (rom_data ! (nat off + 1)) * 2 ^ 16
               + uint (rom_data ! (nat off + 2)) * 2 ^ 8 + uint (rom_data ! (nat off + 3))"
proof -
  have "nat off + 4 \<le> length rom_data"
    using assms(3,4) by linarith
  then have "py_slice rom_data off (off + 4) =
      [rom_data ! nat off, rom_data ! (nat off + 1), rom_data ! (nat off + 2),
       rom_data ! (nat off + 3)]"
    using assms(3) by (simp add: py_slice_nonneg take4_drop)
  then show ?thesis
    using assms(1,2) by (simp add: read32_def load_cartridge_def int_from_bytes4 Let_def)
qed

theorem rom_read32_witness:
  "int (length (ram (Memory_init (8 * 1024 * 1024)))) \<le> 0x10000004
   \<and> (4::int) = 0x10000004 - cartridge_base \<and> (0::int) \<le> 4
   \<and> (4::int) + 4 \<le> int (length [1, 2, 3, 4, 0x12, 0x34, 0x56, 0x78 :: byte])
   \<and> read32 (load_cartridge (Memory_init (8 * 1024 * 1024)) [1, 2, 3, 4, 0x12, 0x34, 0x56, 0x78])
        0x10000004 = Inr 0x12345678"
  using rom_read32 [of "Memory_init (8 * 1024 * 1024)" "0x10000004" 4
                       "[1, 2, 3, 4, 0x12, 0x34, 0x56, 0x78]"]
  by (simp add: Memory_init_def cartridge_base_def int_from_bytes4)

section \<open>A write in the last bytes of the RAM\<close>

text \<open>
  C10. For every address \<open>a\<close> with \<open>ramSize - 4 < a < ramSize\<close> and every word \<open>v\<close>,
  \<open>write32(a, v)\<close> succeeds and the RAM grows to length \<open>a + 4\<close>: the slice assignment
  puts all four bytes of the word in, so the RAM is longer than before and every address
  below \<open>a + 4\<close> is read from the RAM afterwards. An address is a non-negative integer,
  a word lies in \<open>0 .. 2^32 - 1\<close>, and \<open>ramSize\<close> is the length of the bytearray when
  the write is made.
\<close>

theorem write32_extends_ram:
  assumes "0 \<le> a" and "int (length (ram m)) - 4 < a" and "a < int (length (ram m))"
    and "0 \<le> v" and "v < 2 ^ 32"
  shows "\<exists>m'. write32 m a v = Inr m'
           \<and> ram m' = take (nat a) (ram m) @ be_bytes4 v
           \<and> int (length (ram m')) = a + 4
           \<and> length (ram m) < length (ram m')
           \<and> (\<forall>b. b < a + 4 \<longrightarrow>
                 read32 m' b = Inr (int_from_bytes (py_slice (ram m') b (b + 4))))"
proof -
  let ?m = "m\<lparr>ram := take (nat a) (ram m) @ be_bytes4 v\<rparr>"
  have "drop (nat a + 4) (ram m) = []"
    using assms(1,2) by simp
  then have w: "write32 m a v = Inr ?m"
    using write32_inside [OF assms(1,3,4,5)] by simp
  have len: "int (length (ram ?m)) = a + 4"
    using assms(1,3) by (simp add: length_be_bytes4 min_def)
  then have "\<forall>b. b < a + 4 \<longrightarrow>
      read32 ?m b = Inr (int_from_bytes (py_slice (ram ?m) b (b + 4)))"
    by (simp add: read32_def)
  moreover have "length (ram m) < length (ram ?m)"
    using len assms(2) by linarith
  ultimately show ?thesis
    using w len by simp
qed

theorem write32_extends_ram_witness:
  "(0::int) \<le> 0x7FFFFF
   \<and> int (length (ram (Memory_init (8 * 1024 * 1024)))) - 4 < 0x7FFFFF
   \<and> 0x7FFFFF < int (length (ram (Memory_init (8 * 1024 * 1024))))
   \<and> (0::int) \<le> 0x01020304 \<and> (0x01020304::int) < 2 ^ 32
   \<and> (0x800002::int) < 0x7FFFFF + 4
   \<and> (\<exists>m'. write32 (Memory_init (8 * 1024 * 1024)) 0x7FFFFF 0x01020304 = Inr m'
          \<and> ram m' = replicate 0x7FFFFF 0 @ [1, 2, 3, 4]
          \<and> length (ram m') = 0x800003
          \<and> read32 m' 0x800002 = Inr (int_from_bytes (py_slice (ram m') 0x800002 0x800006)))"
  using write32_extends_ram [of "0x7FFFFF" "Memory_init (8 * 1024 * 1024)" "0x01020304"]
  by (auto simp: Memory_init_def be_bytes4_def)

section \<open>Absolute jumps\<close>

lemma fetch_boundary: "read32 boundary_memory 0x1FFFFFFC = Inr 0x08000001"
  by (simp add: read32_def boundary_memory_def load_cartridge_def Memory_init_def big_rom_def
      cartridge_base_def py_slice_def slice_index_def int_from_bytes_def)

text \<open>
  C1, as the code has it. One step that fetches an absolute jump (opcode 2 or 3) with target
  field \<open>t\<close> while the counter is \<open>p\<close> leaves the counter at
  \<open>((p + 4) & 0xF0000000) | (t << 2)\<close>: the counter is advanced past the instruction
  before the jump takes the segment bits from it.
\<close>

theorem jump_target:
  assumes "read32 mem (pc c) = Inr instr"
    and "drop_bit 26 instr AND 0x3F = 2 \<or> drop_bit 26 instr AND 0x3F = 3"
    and "t = instr AND 0x03FFFFFF"
  shows "execute_next_instruction mem c =
           Inr (c\<lparr>pc := ((pc c + 4) AND 0xF0000000) OR push_bit 2 t\<rparr>)"
  using assms by (auto simp: execute_next_instruction_def execute_def Let_def)

theorem jump_target_witness:
  "read32 boundary_memory (pc boundary_cpu) = Inr 0x08000001
   \<and> (drop_bit 26 (0x08000001::int) AND 0x3F = 2 \<or> drop_bit 26 (0x08000001::int) AND 0x3F = 3)
   \<and> (1::int) = 0x08000001 AND 0x03FFFFFF
   \<and> execute_next_instruction boundary_memory boundary_cpu = Inr (boundary_cpu\<lparr>pc := 0x20000004\<rparr>)"
  using jump_target [of boundary_memory boundary_cpu "0x08000001" 1] fetch_boundary
  by (simp add: boundary_cpu_def VR4300CPU_init_def)

text \<open>
  C1, as stated, fails where \<open>p + 4\<close> is in the next segment: the jump fetched at
  \<open>0x1FFFFFFC\<close> goes to \<open>0x20000004\<close>, and \<open>(p & 0xF0000000) | (t << 2)\<close> is
  \<open>0x10000004\<close>.
\<close>

theorem jump_target_counterexample:
  "read32 boundary_memory (pc boundary_cpu) = Inr 0x08000001
   \<and> drop_bit 26 (0x08000001::int) AND 0x3F = 2
   \<and> execute_next_instruction boundary_memory boundary_cpu = Inr (boundary_cpu\<lparr>pc := 0x20000004\<rparr>)
   \<and> (pc boundary_cpu AND 0xF0000000) OR push_bit 2 (0x08000001 AND 0x03FFFFFF) = 0x10000004"
  using fetch_boundary
  by (simp add: boundary_cpu_def VR4300CPU_init_def execute_next_instruction_def execute_def)

section \<open>Accesses above the RAM\<close>

text \<open>
  C5, as the code has it. No access raises an address error. A write at an address that is
  not below the size of the RAM, in the window of the ROM or not, changes nothing and raises
  nothing. A read there, once a cartridge is loaded, returns the big-endian value of the
  slice \<open>rom[off:off+4]\<close> for \<open>off = address - cartridge_base\<close>, which is 0 when \<open>off\<close>
  is at or past the end of the ROM.
\<close>

theorem access_above_ram:
  assumes "int (length (ram m)) \<le> a"
  shows "write32 m a v = Inr m
       \<and> (rom m = Some r \<longrightarrow>
            read32 m a = Inr (int_from_bytes (py_slice r (a - cartridge_base) (a - cartridge_base + 4))))
       \<and> (rom m = Some r \<and> int (length r) \<le> a - cartridge_base \<longrightarrow> read32 m a = Inr 0)"
proof -
  have "py_slice r (a - cartridge_base) (a - cartridge_base + 4) = []"
    if "int (length r) \<le> a - cartridge_base"
    using that by (auto simp: py_slice_def slice_index_def)
  then show ?thesis
    using assms by (simp add: write32_def read32_def Let_def int_from_bytes_def)
qed

theorem access_above_ram_witness:
  "int (length (ram small_cartridge)) \<le> 0x10000004
   \<and> rom small_cartridge = Some [1, 2, 3, 4]
   \<and> int (length [1, 2, 3, 4 :: byte]) \<le> 0x10000004 - cartridge_base
   \<and> write32 small_cartridge 0x10000004 0xDEADBEEF = Inr small_cartridge
   \<and> read32 small_cartridge 0x10000004 = Inr 0"
  using access_above_ram [of small_cartridge "0x10000004" "0xDEADBEEF" "[1, 2, 3, 4]"]
  by (simp add: small_cartridge_def load_cartridge_def Memory_init_def cartridge_base_def
      py_slice_def slice_index_def int_from_bytes_def)

text \<open>
  C5, as stated, fails: the address \<open>0x20000000\<close> is neither in the RAM nor in the four
  bytes of the ROM, and both accesses return normally.
\<close>

theorem access_above_ram_counterexample:
  "int (length (ram small_cartridge)) \<le> 0x20000000
   \<and> rom small_cartridge = Some [1, 2, 3, 4]
   \<and> cartridge_base + int (length [1, 2, 3, 4 :: byte]) \<le> 0x20000000
   \<and> write32 small_cartridge 0x20000000 0xDEADBEEF = Inr small_cartridge
   \<and> read32 small_cartridge 0x20000000 = Inr 0"
  by (simp add: small_cartridge_def load_cartridge_def Memory_init_def write32_def read32_def
      cartridge_base_def py_slice_def slice_index_def int_from_bytes_def)

section \<open>Alignment\<close>

text \<open>
  C9, as the code has it. No access is rejected for its alignment: for every address \<open>a\<close>,
  a multiple of 4 or not, with \<open>0 \<le> a\<close> and \<open>a + 4\<close> within the RAM, \<open>read32(a)\<close>
  returns the big-endian word of the four bytes at \<open>a\<close> and \<open>write32(a, v)\<close> stores the
  four bytes of \<open>v\<close> there.
\<close>

theorem access_any_alignment:
  assumes "0 \<le> a" and "a + 4 \<le> int (length (ram m))" and "0 \<le> v" and "v < 2 ^ 32"
  shows "read32 m a = Inr (int_from_bytes [ram m ! nat a, ram m ! (nat a + 1),
                                           ram m ! (nat a + 2), ram m ! (nat a + 3)])
       \<and> write32 m a v =
           Inr (m\<lparr>ram := take (nat a) (ram m) @ be_bytes4 v @ drop (nat a + 4) (ram m)\<rparr>)"
proof -
  have "nat a + 4 \<le> length (ram m)"
    using assms(1,2) by linarith
  then have "py_slice (ram m) a (a + 4) =
      [ram m ! nat a, ram m ! (nat a + 1), ram m ! (nat a + 2), ram m ! (nat a + 3)]"
    using assms(1) by (simp add: py_slice_nonneg take4_drop)
  moreover have "a < int (length (ram m))"
    using assms(2) by simp
  ultimately show ?thesis
    using write32_inside [OF assms(1) _ assms(3,4)] by (simp add: read32_def)
qed

theorem access_any_alignment_witness:
  "(0::int) \<le> 1 \<and> (1::int) + 4 \<le> int (length (ram \<lparr>ram = [0, 5, 6, 7, 8, 0, 0, 0], rom = None\<rparr>))
   \<and> (0::int) \<le> 0x01020304 \<and> (0x01020304::int) < 2 ^ 32
   \<and> read32 \<lparr>ram = [0, 5, 6, 7, 8, 0, 0, 0], rom = None\<rparr> 1 = Inr 0x05060708
   \<and> write32 \<lparr>ram = [0, 5, 6, 7, 8, 0, 0, 0], rom = None\<rparr> 1 0x01020304 =
        Inr \<lparr>ram = [0, 1, 2, 3, 4, 0, 0, 0], rom = None\<rparr>"
  using access_any_alignment [of 1 "\<lparr>ram = [0, 5, 6, 7, 8, 0, 0, 0], rom = None\<rparr>" "0x01020304"]
  by (simp add: int_from_bytes4 be_bytes4_def)

text \<open>
  C9, as stated, fails: a write and a read at address 1 both return normally.
\<close>

theorem alignment_counterexample:
  "(1::int) mod 4 \<noteq> 0
   \<and> write32 \<lparr>ram = [0, 0, 0, 0, 0, 0, 0, 0], rom = None\<rparr> 1 0x01020304 =
        Inr \<lparr>ram = [0, 1, 2, 3, 4, 0, 0, 0], rom = None\<rparr>
   \<and> read32 \<lparr>ram = [0, 1, 2, 3, 4, 0, 0, 0], rom = None\<rparr> 1 = Inr 0x01020304"
  by (simp add: Memory_init_def write32_def read32_def to_bytes4_def be_bytes4_def
      py_slice_assign_def py_slice_def slice_index_def int_from_bytes_def)

section \<open>Cheats\<close>

text \<open>
  C6, as the code has it. \<open>apply_cheat(address, value)\<close> with the address in the RAM makes
  the next \<open>read32(address)\<close> return the value; with the address at or above the size of
  the RAM it raises nothing and leaves the whole machine as it was.
\<close>

theorem apply_cheat_effect:
  "(0 \<le> a \<and> a < int (length (ram (memory e))) \<and> 0 \<le> v \<and> v < 2 ^ 32 \<longrightarrow>
      (\<exists>e'. apply_cheat e a v = Inr e' \<and> read32 (memory e') a = Inr v))
   \<and> (int (length (ram (memory e))) \<le> a \<longrightarrow> apply_cheat e a v = Inr e)"
proof (intro conjI impI)
  assume h: "0 \<le> a \<and> a < int (length (ram (memory e))) \<and> 0 \<le> v \<and> v < 2 ^ 32"
  then obtain m' where "write32 (memory e) a v = Inr m'" and "read32 m' a = Inr v"
    using write32_then_read32 [of a "memory e" v] by blast
  then show "\<exists>e'. apply_cheat e a v = Inr e' \<and> read32 (memory e') a = Inr v"
    by (simp add: apply_cheat_def)
next
  assume "int (length (ram (memory e))) \<le> a"
  then show "apply_cheat e a v = Inr e"
    by (simp add: apply_cheat_def write32_def)
qed

theorem apply_cheat_effect_witness:
  "((0::int) \<le> 0x100 \<and> 0x100 < int (length (ram (memory N64Emulator_init)))
      \<and> (0::int) \<le> 0xDEADBEEF \<and> (0xDEADBEEF::int) < 2 ^ 32)
   \<and> (\<exists>e'. apply_cheat N64Emulator_init 0x100 0xDEADBEEF = Inr e'
          \<and> read32 (memory e') 0x100 = Inr 0xDEADBEEF)
   \<and> int (length (ram (memory N64Emulator_init))) \<le> 0x10000000
   \<and> apply_cheat N64Emulator_init 0x10000000 0xDEADBEEF = Inr N64Emulator_init"
  using apply_cheat_effect [of "0x100" N64Emulator_init "0xDEADBEEF"]
    apply_cheat_effect [of "0x10000000" N64Emulator_init "0xDEADBEEF"]
  by (simp add: N64Emulator_init_def Memory_init_def)

text \<open>
  C6, as stated, fails: a cheat at the first address above the RAM is accepted.
\<close>

theorem apply_cheat_counterexample:
  "\<not> 0x800000 < int (length (ram (memory N64Emulator_init)))
   \<and> apply_cheat N64Emulator_init 0x800000 0xDEADBEEF = Inr N64Emulator_init"
  by (simp add: apply_cheat_def write32_def N64Emulator_init_def Memory_init_def)

section \<open>Reset\<close>

text \<open>
  C7, as the code has it. After \<open>reset\<close> of the machine the counter is \<open>0xA4000040\<close>,
  the 32 general registers are zero and the memory, RAM and ROM, is as it was: the RAM is
  not cleared. \<open>Memory.reset\<close>, which the machine does not call, fills the RAM with
  zeros and keeps the ROM.
\<close>

theorem reset_effect:
  "pc (cpu (N64Emulator_reset e)) = 0xA4000040
   \<and> regs (cpu (N64Emulator_reset e)) = replicate 32 0
   \<and> memory (N64Emulator_reset e) = memory e
   \<and> ram (Memory_reset m) = replicate (length (ram m)) 0
   \<and> rom (Memory_reset m) = rom m"
  by (simp add: N64Emulator_reset_def VR4300CPU_reset_def Memory_reset_def)

text \<open>
  C7, as stated, fails: the word a cheat has written at address 0 is still there after
  the reset.
\<close>

theorem reset_counterexample:
  "apply_cheat N64Emulator_init 0 0xDEADBEEF = Inr cheated
   \<and> read32 (memory (N64Emulator_reset cheated)) 0 = Inr 0xDEADBEEF
   \<and> ram (memory (N64Emulator_reset cheated)) ! 0 = 0xDE
   \<and> (0xDE :: byte) \<noteq> 0"
  by (simp add: cheated_def apply_cheat_def N64Emulator_reset_def N64Emulator_init_def
      Memory_init_def write32_def read32_def to_bytes4_def be_bytes4_def
      py_slice_assign_def py_slice_def slice_index_def int_from_bytes_def)

section \<open>Saving, then loading\<close>

lemma cpu_set_get: "VR4300CPU_set_state c (VR4300CPU_get_state c) = (None, c)"
  by (simp add: VR4300CPU_set_state_def VR4300CPU_get_state_def)

lemma rsp_set_get: "RSP_set_state r (RSP_get_state r) = (None, r)"
  by (simp add: RSP_set_state_def RSP_get_state_def)

lemma rdp_set_get: "RDP_set_state d (RDP_get_state d) = d"
  by (simp add: RDP_set_state_def RDP_get_state_def)

lemma audio_set_get: "AudioSystem_set_state a (AudioSystem_get_state a) = a"
  by (simp add: AudioSystem_set_state_def AudioSystem_get_state_def)

lemma load_state_save_state: "load_state slot (save_state slot e fs) e = (None, e)"
  by (simp add: load_state_def load_stages_def save_state_def get_snapshot_def and_then_def
      load_cpu_def load_rsp_def load_rdp_def load_audio_def load_memory_def load_controllers_def
      cpu_set_get rsp_set_get rdp_set_get audio_set_get InputManager_set_state_def)

text \<open>
  C4. For every state of the machine and every \<open>N\<close>, \<open>save_state\<close> followed at once by
  \<open>load_state\<close> of the same slot succeeds and the trace of the next \<open>N\<close> steps is the
  trace from the state before the two calls.
\<close>

theorem save_load_trace:
  "fst (load_state slot (save_state slot e fs) e) = None
   \<and> trace N (snd (load_state slot (save_state slot e fs) e)) = trace N e"
  by (simp add: load_state_save_state)

section \<open>A load that fails\<close>







lemma bytes_of_ints_error: "bytes_of_ints xs = Inl err \<Longrightarrow> err = ValueError"
  by (induction xs arbitrary: err) (auto split: if_splits sum.splits)












end
